theory Spec2Isabelle
  imports
    Main
    "HOL-Library.Word"
    "HOL-Library.Char_ord"
    "HOL-Library.List_Lexorder"
    "HOL-Library.Multiset"
begin

unbundle bit_operations_syntax

chapter \<open>The object store of lit: hash-object, cat-file and ls-tree\<close>

text \<open>
  The development follows \<^verbatim>\<open>src/src/cmd.go\<close>. A Go \<^verbatim>\<open>string\<close> or \<^verbatim>\<open>[]byte\<close> is a
  \<^typ>\<open>string\<close> (a list of 8-bit characters), so \<^term>\<open>length\<close> counts bytes as Go's
  \<^verbatim>\<open>len\<close> does. Each command is a function from its arguments and the file system to
  what it prints on standard output, or to the way it stops.
\<close>

section \<open>How a command stops\<close>

text \<open>
  Every failure of the source is either a message on standard error followed by
  \<^verbatim>\<open>os.Exit(1)\<close>, or a run-time panic of Go (an index or a slice bound out of range).
  One constructor per place:
  \<^item> \<open>Usage\<close>: "usage: mygit cat-file -flag<optional> <SHA>";
  \<^item> \<open>FailedToOpenObject\<close>: "Failed to open object";
  \<^item> \<open>FailedToCreateZlibReader\<close>: "Failed to create zlib reader" (cat-file);
  \<^item> \<open>FailedToReadObjectContent\<close>: "Failed to read object content" (cat-file);
  \<^item> \<open>NoNullByteFound\<close>: "Invalid Git object format (no null byte found)" (cat-file)
    and "Invalid format" (ls-tree);
  \<^item> \<open>CouldNotOpenTheFile\<close>: "Could not open the file" (hash-object);
  \<^item> \<open>CouldNotCreateTheDirectory\<close>, \<open>ErrorCreatingTheFile\<close>: the two failures of the
    write branch of hash-object;
  \<^item> \<open>FailedToReadFile\<close>, \<open>FailedToDecompressObject\<close>, \<open>FailedToReadDecompressedData\<close>:
    the read failures of ls-tree;
  \<^item> \<open>PanicSliceBounds\<close>, \<open>PanicIndex\<close>: the two run-time panics.

  The two failures of a write in hash-object (to the zlib buffer in memory, to the file
  just created) have no constructor: no write fails in the file system below.
\<close>

datatype failure =
    Usage
  | FailedToOpenObject
  | FailedToCreateZlibReader
  | FailedToReadObjectContent
  | NoNullByteFound
  | CouldNotOpenTheFile
  | CouldNotCreateTheDirectory
  | ErrorCreatingTheFile
  | FailedToReadFile
  | FailedToDecompressObject
  | FailedToReadDecompressedData
  | PanicSliceBounds
  | PanicIndex

section \<open>Formatting: \<^verbatim>\<open>%d\<close> and \<^verbatim>\<open>%x\<close>\<close>

definition digit :: "nat \<Rightarrow> char" where
  "digit d = ''0123456789'' ! d"

text \<open>\<^verbatim>\<open>%d\<close> of a file size, which is never negative.\<close>

function formatInt :: "nat \<Rightarrow> string" where
  "formatInt n = (if n < 10 then [digit n] else formatInt (n div 10) @ [digit (n mod 10)])"
  by pat_completeness auto
termination
  by (relation "measure (\<lambda>n. n)") auto

declare formatInt.simps [simp del]



definition hexdigit :: "nat \<Rightarrow> char" where
  "hexdigit n = ''0123456789abcdef'' ! n"

text \<open>\<^verbatim>\<open>%x\<close> of a byte sequence: two lower-case digits for each byte.\<close>

definition hex :: "string \<Rightarrow> string" where
  "hex bs = concat (map (\<lambda>c. [hexdigit (of_char c div 16), hexdigit (of_char c mod 16)]) bs)"

section \<open>\<^verbatim>\<open>crypto/sha1\<close>\<close>

text \<open>
  \<^verbatim>\<open>sha1.Sum\<close> of Go's standard library, that is SHA-1 as FIPS 180-4 defines it: the
  message is padded to a multiple of 64 bytes, and each block of 16 big-endian words is
  expanded to 80 words and run through four groups of 20 rounds.
\<close>

type_synonym u32 = "32 word"

type_synonym digest = "u32 \<times> u32 \<times> u32 \<times> u32 \<times> u32"

definition RotateLeft32 :: "u32 \<Rightarrow> nat \<Rightarrow> u32" where
  "RotateLeft32 x k = push_bit k x OR drop_bit (32 - k) x"

definition be32 :: "string \<Rightarrow> u32" where
  "be32 bs = foldl (\<lambda>w c. push_bit 8 w OR of_char c) 0 bs"

fun words :: "nat \<Rightarrow> string \<Rightarrow> u32 list" where
  "words 0 p = []"
| "words (Suc n) p = be32 (take 4 p) # words n (drop 4 p)"

fun schedule :: "nat \<Rightarrow> u32 list \<Rightarrow> u32 list" where
  "schedule 0 w = w"
| "schedule (Suc n) w =
     schedule n (w @ [RotateLeft32 (w ! (length w - 3) XOR w ! (length w - 8)
                                   XOR w ! (length w - 14) XOR w ! (length w - 16)) 1])"

definition f0 :: "u32 \<Rightarrow> u32 \<Rightarrow> u32 \<Rightarrow> u32" where
  "f0 b c d = (b AND c) OR (NOT b AND d)"

definition f1 :: "u32 \<Rightarrow> u32 \<Rightarrow> u32 \<Rightarrow> u32" where
  "f1 b c d = b XOR c XOR d"

definition f2 :: "u32 \<Rightarrow> u32 \<Rightarrow> u32 \<Rightarrow> u32" where
  "f2 b c d = ((b OR c) AND d) OR (b AND c)"

fun sha1_round :: "(u32 \<Rightarrow> u32 \<Rightarrow> u32 \<Rightarrow> u32) \<Rightarrow> u32 \<Rightarrow> digest \<Rightarrow> u32 \<Rightarrow> digest" where
  "sha1_round f k (a, b, c, d, e) wi =
     (RotateLeft32 a 5 + f b c d + e + wi + k, a, RotateLeft32 b 30, c, d)"

definition rounds :: "digest \<Rightarrow> u32 list \<Rightarrow> digest" where
  "rounds h w =
     foldl (sha1_round f1 0xCA62C1D6)
       (foldl (sha1_round f2 0x8F1BBCDC)
          (foldl (sha1_round f1 0x6ED9EBA1)
             (foldl (sha1_round f0 0x5A827999) h (take 20 w))
             (take 20 (drop 20 w)))
          (take 20 (drop 40 w)))
       (drop 60 w)"

fun block :: "digest \<Rightarrow> string \<Rightarrow> digest" where
  "block (h0, h1, h2, h3, h4) p =
     (case rounds (h0, h1, h2, h3, h4) (schedule 64 (words 16 p)) of
        (a, b, c, d, e) \<Rightarrow> (h0 + a, h1 + b, h2 + c, h3 + d, h4 + e))"

function blocks :: "digest \<Rightarrow> string \<Rightarrow> digest" where
  "blocks h p = (if 64 \<le> length p then blocks (block h (take 64 p)) (drop 64 p) else h)"
  by pat_completeness auto
termination
  by (relation "measure (\<lambda>(h, p). length p)") auto

declare blocks.simps [simp del]

definition be_bytes :: "nat \<Rightarrow> 'a::len word \<Rightarrow> string" where
  "be_bytes k w = map (\<lambda>i. char_of (unat (drop_bit (8 * i) w AND 0xFF))) (rev [0..<k])"

definition sha1_pad :: "string \<Rightarrow> string" where
  "sha1_pad m =
     m @ [CHR 0x80] @ replicate ((119 - length m mod 64) mod 64) (CHR 0x00)
       @ be_bytes 8 (push_bit 3 (of_nat (length m) :: 64 word))"

definition sha1_init :: digest where
  "sha1_init = (0x67452301, 0xEFCDAB89, 0x98BADCFE, 0x10325476, 0xC3D2E1F0)"

definition sha1_Sum :: "string \<Rightarrow> string" where
  "sha1_Sum m =
     (case blocks sha1_init (sha1_pad m) of
        (h0, h1, h2, h3, h4) \<Rightarrow> concat (map (be_bytes 4) [h0, h1, h2, h3, h4]))"

section \<open>\<^verbatim>\<open>compress/zlib\<close>\<close>

text \<open>
  The deflate algorithm is not part of this repository. The commands take the two
  directions of zlib as parameters: \<open>zc\<close> is what \<^verbatim>\<open>zlib.NewWriter\<close>, \<^verbatim>\<open>Write\<close> and
  \<^verbatim>\<open>Close\<close> leave in the buffer, \<open>zd\<close> is what \<^verbatim>\<open>zlib.NewReader\<close> followed by
  \<^verbatim>\<open>io.ReadAll\<close> gives on the bytes of a file. Theorems that need more than that state
  it: \<open>zd (zc x) = Inflated x\<close> is the round trip of the library.
\<close>

datatype inflated = BadHeader | BadStream | Inflated string

section \<open>The file system\<close>

text \<open>
  A path is resolved from the working directory component by component; an empty
  component and \<^verbatim>\<open>.\<close> name the directory they are met in, so \<^verbatim>\<open>./.git/objects/ab/cd\<close>
  and \<^verbatim>\<open>.git/objects/ab/cd\<close> are one file. A resolved path is the flag "absolute" and
  the components that remain. Symbolic links and \<^verbatim>\<open>..\<close> are not interpreted.

  A file has the bytes that reading it returns and the size that its inode reports.
  \<^verbatim>\<open>os.ReadFile\<close> returns the first, \<^verbatim>\<open>os.Stat\<close> the second, and they are two calls: the
  two numbers agree for a file on disk that nothing else writes to, and they differ for
  the files the kernel makes up, as under \<^verbatim>\<open>/proc\<close>, whose size is 0 whatever they hold.
  Nothing else changes the file system while a command runs, and there are no
  permissions and no full disk: a file that exists can be read, and a file that has been
  created can be written.
\<close>

datatype node = File string nat | Directory

type_synonym path = "bool \<times> string list"

type_synonym filesystem = "path \<rightharpoonup> node"

fun splitOn :: "char \<Rightarrow> string \<Rightarrow> string list" where
  "splitOn c [] = [[]]"
| "splitOn c (x # xs) =
     (if x = c then [] # splitOn c xs
      else (case splitOn c xs of [] \<Rightarrow> [[x]] | w # ws \<Rightarrow> (x # w) # ws))"

definition resolve :: "string \<Rightarrow> path" where
  "resolve s =
     (take 1 s = ''/'', filter (\<lambda>c. c \<noteq> [] \<and> c \<noteq> ''.'') (splitOn
       (CHR ''/'') s))"

text \<open>The working directory and the root are directories.\<close>

definition lookup :: "filesystem \<Rightarrow> path \<Rightarrow> node option" where
  "lookup fs p = (if snd p = [] then Some Directory else fs p)"

text \<open>
  A path that ends in a slash or in the component \<^verbatim>\<open>.\<close> names a directory: on a file
  the system refuses it.
\<close>

definition mustBeDirectory :: "string \<Rightarrow> bool" where
  "mustBeDirectory s =
     (last (splitOn (CHR ''/'') s) = [] \<or> last (splitOn (CHR ''/'') s) = ''.'')"

definition lookupName :: "filesystem \<Rightarrow> string \<Rightarrow> node option" where
  "lookupName fs s =
     (case lookup fs (resolve s) of
        Some (File c sz) \<Rightarrow> if mustBeDirectory s then None else Some (File c sz)
      | other \<Rightarrow> other)"

definition ReadFile :: "filesystem \<Rightarrow> string \<Rightarrow> string option" where
  "ReadFile fs s = (case lookupName fs s of Some (File c sz) \<Rightarrow> Some c | _ \<Rightarrow> None)"

definition Stat :: "filesystem \<Rightarrow> string \<Rightarrow> node option" where
  "Stat fs s = lookupName fs s"

text \<open>
  \<^verbatim>\<open>info.Size()\<close>: the size the inode reports. The size of a directory depends on the
  system; hash-object never asks for it, since \<^verbatim>\<open>os.ReadFile\<close> has failed on a
  directory before.
\<close>

fun Size :: "node \<Rightarrow> nat" where
  "Size (File c sz) = sz"
| "Size Directory = 0"

definition Open :: "filesystem \<Rightarrow> string \<Rightarrow> node option" where
  "Open fs s = lookupName fs s"

text \<open>\<^verbatim>\<open>filepath.Dir\<close>: every component but the last.\<close>

definition Dir :: "path \<Rightarrow> path" where
  "Dir p = (fst p, butlast (snd p))"

text \<open>
  \<^verbatim>\<open>os.MkdirAll\<close> creates the directory and every missing parent. It fails when a
  component on the way is a file.
\<close>

fun mkdirs :: "filesystem \<Rightarrow> bool \<Rightarrow> string list \<Rightarrow> string list \<Rightarrow> filesystem option" where
  "mkdirs fs ab pre [] = Some fs"
| "mkdirs fs ab pre (c # cs) =
     (case fs (ab, pre @ [c]) of
        Some (File _ _) \<Rightarrow> None
      | _ \<Rightarrow> mkdirs (fs((ab, pre @ [c]) \<mapsto> Directory)) ab (pre @ [c]) cs)"

definition MkdirAll :: "filesystem \<Rightarrow> path \<Rightarrow> filesystem option" where
  "MkdirAll fs p = mkdirs fs (fst p) [] (snd p)"

text \<open>
  \<^verbatim>\<open>os.Create\<close> truncates or creates a file on disk. It fails on a directory, on a path
  that names a directory, and when the parent is not a directory. What is then written
  to the file is what it holds, and its size.
\<close>

definition Create :: "filesystem \<Rightarrow> string \<Rightarrow> filesystem option" where
  "Create fs s =
     (if mustBeDirectory s \<or> lookup fs (resolve s) = Some Directory
         \<or> lookup fs (Dir (resolve s)) \<noteq> Some Directory
      then None
      else Some (fs(resolve s \<mapsto> File [] 0)))"

definition WriteBytes :: "filesystem \<Rightarrow> path \<Rightarrow> string \<Rightarrow> filesystem" where
  "WriteBytes fs p bs = fs(p \<mapsto> File bs (length bs))"

text \<open>\<^verbatim>\<open>fs.Arg(i)\<close> of package flag: the empty string when the argument is missing.\<close>

definition Arg :: "string list \<Rightarrow> nat \<Rightarrow> string" where
  "Arg args i = (if i < length args then args ! i else [])"

section \<open>hash-object\<close>

text \<open>\<^verbatim>\<open>fmt.Sprintf("blob %d\x00%s", info.Size(), string(content))\<close>\<close>

definition headerAndContent :: "nat \<Rightarrow> string \<Rightarrow> string" where
  "headerAndContent sz content = ''blob '' @ formatInt sz @ [CHR 0x00] @ content"

text \<open>
  The loop over the identifier that builds the path, a slash after the character of
  index 1. The identifier is made of hexadecimal digits, so its runes are its bytes.
\<close>

fun blobPathLoop :: "nat \<Rightarrow> string \<Rightarrow> string \<Rightarrow> string" where
  "blobPathLoop i [] blobPath = blobPath"
| "blobPathLoop i (v # vs) blobPath =
     blobPathLoop (Suc i) vs (if i = 1 then (blobPath @ [v]) @ ''/'' else blobPath @ [v])"

definition blobPath :: "string \<Rightarrow> string" where
  "blobPath hash = blobPathLoop 0 hash ''./.git/objects/''"

text \<open>
  \<open>HashObject zc write args fs\<close>: the flag \<^verbatim>\<open>-w\<close>, the arguments after the flags and the
  file system; the result is what is printed (the identifier) or the failure, and the
  file system the command leaves. Writing to the buffer in memory does not fail.
\<close>

definition HashObject ::
  "(string \<Rightarrow> string) \<Rightarrow> bool \<Rightarrow> string list \<Rightarrow> filesystem \<Rightarrow> (failure + string) \<times> filesystem" where
  "HashObject zc write args fs =
     (let filePath = Arg args 0 in
      case ReadFile fs filePath of
        None \<Rightarrow> (Inl CouldNotOpenTheFile, fs)
      | Some content \<Rightarrow>
          (case Stat fs filePath of
             None \<Rightarrow> (Inl CouldNotOpenTheFile, fs)
           | Some info \<Rightarrow>
               (let hc = headerAndContent (Size info) content;
                    hash = hex (sha1_Sum hc);
                    buffer = zc hc
                in if write then
                     (case MkdirAll fs (Dir (resolve (blobPath hash))) of
                        None \<Rightarrow> (Inl CouldNotCreateTheDirectory, fs)
                      | Some fs1 \<Rightarrow>
                          (case Create fs1 (blobPath hash) of
                             None \<Rightarrow> (Inl ErrorCreatingTheFile, fs1)
                           | Some fs2 \<Rightarrow>
                               (Inr hash, WriteBytes fs2 (resolve (blobPath hash)) buffer)))
                   else (Inr hash, fs))))"

section \<open>cat-file\<close>

text \<open>The scan for the first NUL byte; \<open>-1\<close> when there is none.\<close>

fun nullIndexFrom :: "nat \<Rightarrow> string \<Rightarrow> int" where
  "nullIndexFrom i [] = -1"
| "nullIndexFrom i (b # bs) = (if b = CHR 0x00 then int i else nullIndexFrom (Suc i) bs)"

definition nullIndex :: "string \<Rightarrow> int" where
  "nullIndex content = nullIndexFrom 0 content"

text \<open>Lines 77 to 91: the header before the first NUL and the body after it.\<close>

definition unframe :: "string \<Rightarrow> failure + string \<times> string" where
  "unframe content =
     (if nullIndex content = -1 then Inl NoNullByteFound
      else Inr (take (nat (nullIndex content)) content,
                drop (nat (nullIndex content) + 1) content))"

text \<open>
  \<^verbatim>\<open>fileSHA[:2]\<close> and \<^verbatim>\<open>fileSHA[2:]\<close> panic on a string of fewer than two bytes; there is
  no check before them.
\<close>

definition objectPath :: "string \<Rightarrow> failure + string" where
  "objectPath sha =
     (if length sha < 2 then Inl PanicSliceBounds
      else Inr (''.git/objects/'' @ take 2 sha @ ''/'' @ drop 2 sha))"

text \<open>
  \<open>CatFile zd prettyPrint args fs\<close>: the flag \<^verbatim>\<open>-p\<close> and the arguments after the flags.
  Reading a directory fails in \<^verbatim>\<open>zlib.NewReader\<close>, which reads the header.
\<close>

definition CatFile ::
  "(string \<Rightarrow> inflated) \<Rightarrow> bool \<Rightarrow> string list \<Rightarrow> filesystem \<Rightarrow> failure + string" where
  "CatFile zd prettyPrint args fs =
     (if length args < 1 then Inl Usage
      else
        (case objectPath (Arg args 0) of
           Inl e \<Rightarrow> Inl e
         | Inr filePath \<Rightarrow>
             (case Open fs filePath of
                None \<Rightarrow> Inl FailedToOpenObject
              | Some Directory \<Rightarrow> Inl FailedToCreateZlibReader
              | Some (File bytes sz) \<Rightarrow>
                  (case zd bytes of
                     BadHeader \<Rightarrow> Inl FailedToCreateZlibReader
                   | BadStream \<Rightarrow> Inl FailedToReadObjectContent
                   | Inflated content \<Rightarrow>
                       (case unframe content of
                          Inl e \<Rightarrow> Inl e
                        | Inr (header, body) \<Rightarrow>
                            Inr (if prettyPrint then body else header))))))"

section \<open>ls-tree\<close>

record entry =
  Mode :: string
  Name :: string
  Sha :: string

text \<open>
  \<^verbatim>\<open>for treeContent[i] != c { i++ }\<close> on the bytes from \<open>i\<close> on: the bytes before the
  first \<open>c\<close> and the bytes after it. Indexing checks the length, so running off the end
  is a panic (\<open>None\<close>).
\<close>

fun scanTo :: "char \<Rightarrow> string \<Rightarrow> (string \<times> string) option" where
  "scanTo c [] = None"
| "scanTo c (x # xs) =
     (if x = c then Some ([], xs)
      else (case scanTo c xs of None \<Rightarrow> None | Some (tok, rest) \<Rightarrow> Some (x # tok, rest)))"

text \<open>
  The loop of lines 349 to 379, on the bytes that remain from the cursor on. A slice
  expression \<^verbatim>\<open>treeContent[i : i+20]\<close> checks the capacity of the slice, not its length:
  \<open>slack\<close> is what the buffer \<^verbatim>\<open>io.ReadAll\<close> returned holds between the length and the
  capacity. When fewer than 20 bytes remain and the capacity allows, the identifier is
  completed from there, the cursor passes the length and the loop ends.
\<close>

function parseEntries :: "string \<Rightarrow> string \<Rightarrow> failure + entry list" where
  "parseEntries treeContent slack =
     (if treeContent = [] then Inr []
      else
        (case scanTo (CHR '' '') treeContent of
           None \<Rightarrow> Inl PanicIndex
         | Some (mode, afterMode) \<Rightarrow>
             (case scanTo (CHR 0x00) afterMode of
                None \<Rightarrow> Inl PanicIndex
              | Some (name, afterName) \<Rightarrow>
                  if length afterName + length slack < 20 then Inl PanicSliceBounds
                  else
                    (case parseEntries (drop 20 afterName) slack of
                       Inl e \<Rightarrow> Inl e
                     | Inr entries \<Rightarrow>
                         Inr (\<lparr>Mode = mode, Name = name,
                               Sha = hex (take 20 (afterName @ slack))\<rparr> # entries)))))"
  by pat_completeness auto
termination
proof (relation "measure (\<lambda>(treeContent, slack). length treeContent)")
  show "wf (measure (\<lambda>(treeContent, slack). length treeContent))"
    by simp
next
  have shorter: "length rest < length xs" if "scanTo c xs = Some (tok, rest)"
    for c xs tok rest
    using that
    by (induction xs arbitrary: tok) (auto split: if_splits option.splits)
  fix treeContent slack :: string and x2 mode afterMode x2a name afterName
  assume "scanTo (CHR '' '') treeContent = Some x2" "(mode, afterMode) = x2"
    "scanTo (CHR 0x00) afterMode = Some x2a" "(name, afterName) = x2a"
  then have "length afterMode < length treeContent" "length afterName < length afterMode"
    using shorter by metis+
  then show "((drop 20 afterName, slack), treeContent, slack)
      \<in> measure (\<lambda>(treeContent, slack). length treeContent)"
    by simp
qed

declare parseEntries.simps [simp del]

text \<open>
  \<^verbatim>\<open>sort.Slice\<close> is called with the comparison of the names, \<^verbatim>\<open><\<close> on Go strings, which
  compares byte by byte. The algorithm behind it is not part of this repository, and the
  library promises no more than a sorted permutation: the order it leaves entries of equal
  names in is not fixed. So ls-tree takes the function as a parameter, \<open>sortSlice\<close>, and
  what a theorem needs of it, it states: the result holds the same entries, in ascending
  order of their names.
\<close>

definition printEntry :: "bool \<Rightarrow> entry \<Rightarrow> string" where
  "printEntry nameOnly e =
     (if nameOnly then Name e @ [CHR 0x0A]
      else Mode e @ '' '' @ Name e @ '' '' @ Sha e @ [CHR 0x0A])"

text \<open>Lines 318 to 383: from the decompressed object to the entries that are printed.\<close>

definition decodeTree ::
  "(entry list \<Rightarrow> entry list) \<Rightarrow> string \<Rightarrow> string \<Rightarrow> failure + entry list" where
  "decodeTree sortSlice decompressedData slack =
     (if nullIndex decompressedData = -1 then Inl NoNullByteFound
      else
        (case parseEntries (drop (nat (nullIndex decompressedData) + 1) decompressedData) slack of
           Inl e \<Rightarrow> Inl e
         | Inr entries \<Rightarrow> Inr (sortSlice entries)))"

text \<open>
  \<open>LsTree zd slack sortSlice nameOnly args fs\<close>. Here the file is read whole before zlib sees it,
  so a directory fails in \<^verbatim>\<open>io.ReadAll\<close>. There is no check that an argument is present.
\<close>

definition LsTree ::
  "(string \<Rightarrow> inflated) \<Rightarrow> string \<Rightarrow> (entry list \<Rightarrow> entry list) \<Rightarrow> bool \<Rightarrow> string list \<Rightarrow>
     filesystem \<Rightarrow> failure + string" where
  "LsTree zd slack sortSlice nameOnly args fs =
     (case objectPath (Arg args 0) of
        Inl e \<Rightarrow> Inl e
      | Inr filePath \<Rightarrow>
          (case Open fs filePath of
             None \<Rightarrow> Inl FailedToOpenObject
           | Some Directory \<Rightarrow> Inl FailedToReadFile
           | Some (File bytes sz) \<Rightarrow>
               (case zd bytes of
                  BadHeader \<Rightarrow> Inl FailedToDecompressObject
                | BadStream \<Rightarrow> Inl FailedToReadDecompressedData
                | Inflated decompressedData \<Rightarrow>
                    (case decodeTree sortSlice decompressedData slack of
                       Inl e \<Rightarrow> Inl e
                     | Inr entries \<Rightarrow> Inr (concat (map (printEntry nameOnly) entries))))))"

section \<open>Tree records\<close>

text \<open>
  A tree entry as it is stored: mode, name and the 20 raw bytes of the identifier, laid
  out as \<^verbatim>\<open><mode> <name>\0<20_byte_sha>\<close> (the comment before the loop of ls-tree).
\<close>

record treeEntry =
  mode :: string
  name :: string
  rawId :: string






section \<open>A stored blob and a small tree\<close>

text \<open>
  The example of the comment in \<^verbatim>\<open>HashObject\<close>: a file \<^verbatim>\<open>test.txt\<close> that holds
  \<^verbatim>\<open>hello world\<close>, in a directory with nothing else, and the same directory after
  \<^verbatim>\<open>hash-object -w test.txt\<close>.
\<close>

definition hello_envelope :: string where
  "hello_envelope = ''blob 11'' @ [CHR 0x00] @ ''hello world''"

definition hello_id :: string where
  "hello_id = ''95d09f2b10159347eece71399a7e2e907ea3df4f''"

definition hello_fs :: filesystem where
  "hello_fs = Map.empty((False, [''test.txt'']) \<mapsto> File ''hello world'' 11)"

definition hello_store :: "(string \<Rightarrow> string) \<Rightarrow> filesystem" where
  "hello_store zc =
     hello_fs((False, [''.git'']) \<mapsto> Directory,
              (False, [''.git'', ''objects'']) \<mapsto> Directory,
              (False, [''.git'', ''objects'', ''95'']) \<mapsto> Directory,
              (False, [''.git'', ''objects'', ''95'', ''d09f2b10159347eece71399a7e2e907ea3df4f''])
                \<mapsto> File (zc hello_envelope) (length (zc hello_envelope)))"








chapter \<open>Properties\<close>

section \<open>The identifiers of the examples\<close>

text \<open>
  SHA-1 of the 19 bytes of \<^term>\<open>hello_envelope\<close> and of the 13 bytes of
  \<^term>\<open>ostype_envelope\<close>, each one block after padding, evaluated in steps: the padded
  block, its 16 words, the 80 words of the schedule in four parts, the four groups of
  rounds.
\<close>

lemma schedule_add: "schedule (m + n) w = schedule n (schedule m w)"
  by (induction m arbitrary: w) simp_all

lemma schedule_64: "schedule 64 w = schedule 16 (schedule 16 (schedule 16 (schedule 16 w)))"
  using schedule_add [of 16 48 w] schedule_add [of 16 32 "schedule 16 w"]
    schedule_add [of 16 16 "schedule 16 (schedule 16 w)"]
  by simp

lemma rounds_append:
  "length w1 = 20 \<Longrightarrow> length w2 = 20 \<Longrightarrow> length w3 = 20 \<Longrightarrow>
   rounds h (w1 @ w2 @ w3 @ w4) =
     foldl (sha1_round f1 0xCA62C1D6)
       (foldl (sha1_round f2 0x8F1BBCDC)
          (foldl (sha1_round f1 0x6ED9EBA1) (foldl (sha1_round f0 0x5A827999) h w1) w2) w3) w4"
  by (simp add: rounds_def)

lemma blocks_single: "length p = 64 \<Longrightarrow> blocks h p = block h p"
  by (simp add: blocks.simps [of h p] blocks.simps [of _ "[]"])

lemma hello_pad: "sha1_pad hello_envelope = [CHR 0x62, CHR 0x6C, CHR 0x6F, CHR 0x62, CHR 0x20,
  CHR 0x31, CHR 0x31, CHR 0x00, CHR 0x68, CHR 0x65, CHR 0x6C, CHR 0x6C, CHR 0x6F, CHR 0x20,
  CHR 0x77, CHR 0x6F, CHR 0x72, CHR 0x6C, CHR 0x64, CHR 0x80, CHR 0x00, CHR 0x00, CHR 0x00,
  CHR 0x00, CHR 0x00, CHR 0x00, CHR 0x00, CHR 0x00, CHR 0x00, CHR 0x00, CHR 0x00, CHR 0x00,
  CHR 0x00, CHR 0x00, CHR 0x00, CHR 0x00, CHR 0x00, CHR 0x00, CHR 0x00, CHR 0x00, CHR 0x00,
  CHR 0x00, CHR 0x00, CHR 0x00, CHR 0x00, CHR 0x00, CHR 0x00, CHR 0x00, CHR 0x00, CHR 0x00,
  CHR 0x00, CHR 0x00, CHR 0x00, CHR 0x00, CHR 0x00, CHR 0x00, CHR 0x00, CHR 0x00, CHR 0x00,
  CHR 0x00, CHR 0x00, CHR 0x00, CHR 0x00, CHR 0x98]"
  by code_simp

lemma hello_words: "words 16 [CHR 0x62, CHR 0x6C, CHR 0x6F, CHR 0x62, CHR 0x20, CHR 0x31,
  CHR 0x31, CHR 0x00, CHR 0x68, CHR 0x65, CHR 0x6C, CHR 0x6C, CHR 0x6F, CHR 0x20, CHR 0x77,
  CHR 0x6F, CHR 0x72, CHR 0x6C, CHR 0x64, CHR 0x80, CHR 0x00, CHR 0x00, CHR 0x00, CHR 0x00,
  CHR 0x00, CHR 0x00, CHR 0x00, CHR 0x00, CHR 0x00, CHR 0x00, CHR 0x00, CHR 0x00, CHR 0x00,
  CHR 0x00, CHR 0x00, CHR 0x00, CHR 0x00, CHR 0x00, CHR 0x00, CHR 0x00, CHR 0x00, CHR 0x00,
  CHR 0x00, CHR 0x00, CHR 0x00, CHR 0x00, CHR 0x00, CHR 0x00, CHR 0x00, CHR 0x00, CHR 0x00,
  CHR 0x00, CHR 0x00, CHR 0x00, CHR 0x00, CHR 0x00, CHR 0x00, CHR 0x00, CHR 0x00, CHR 0x00,
  CHR 0x00, CHR 0x00, CHR 0x00, CHR 0x98] = [0x626C6F62, 0x20313100, 0x68656C6C, 0x6F20776F,
  0x726C6480, 0x00000000, 0x00000000, 0x00000000, 0x00000000, 0x00000000, 0x00000000,
  0x00000000, 0x00000000, 0x00000000, 0x00000000, 0x00000098]"
  by code_simp

lemma hello_schedule1: "schedule 16 [0x626C6F62, 0x20313100, 0x68656C6C, 0x6F20776F,
  0x726C6480, 0x00000000, 0x00000000, 0x00000000, 0x00000000, 0x00000000, 0x00000000,
  0x00000000, 0x00000000, 0x00000000, 0x00000000, 0x00000098] = [0x626C6F62, 0x20313100,
  0x68656C6C, 0x6F20776F, 0x726C6480, 0x00000000, 0x00000000, 0x00000000, 0x00000000,
  0x00000000, 0x00000000, 0x00000000, 0x00000000, 0x00000000, 0x00000000, 0x00000098,
  0x1412061C, 0x9E228CDE, 0x341210E8, 0xF664E2E6, 0xD89DD0BD, 0x682421D0, 0xECC9C5CD,
  0xB13BA04B, 0xF86C4F98, 0xE5D69226, 0x0A536147, 0x1C115AFC, 0x7A968536, 0xC4EE801E,
  0xC995325B, 0xAB1F5276]"
  by code_simp

lemma hello_schedule2: "schedule 16 [0x626C6F62, 0x20313100, 0x68656C6C, 0x6F20776F,
  0x726C6480, 0x00000000, 0x00000000, 0x00000000, 0x00000000, 0x00000000, 0x00000000,
  0x00000000, 0x00000000, 0x00000000, 0x00000000, 0x00000098, 0x1412061C, 0x9E228CDE,
  0x341210E8, 0xF664E2E6, 0xD89DD0BD, 0x682421D0, 0xECC9C5CD, 0xB13BA04B, 0xF86C4F98,
  0xE5D69226, 0x0A536147, 0x1C115AFC, 0x7A968536, 0xC4EE801E, 0xC995325B, 0xAB1F5276] =
  [0x626C6F62, 0x20313100, 0x68656C6C, 0x6F20776F, 0x726C6480, 0x00000000, 0x00000000,
  0x00000000, 0x00000000, 0x00000000, 0x00000000, 0x00000000, 0x00000000, 0x00000000,
  0x00000000, 0x00000098, 0x1412061C, 0x9E228CDE, 0x341210E8, 0xF664E2E6, 0xD89DD0BD,
  0x682421D0, 0xECC9C5CD, 0xB13BA04B, 0xF86C4F98, 0xE5D69226, 0x0A536147, 0x1C115AFC,
  0x7A968536, 0xC4EE801E, 0xC995325B, 0xAB1F5276, 0x3905B2E4, 0x880B9C8A, 0x9B87E6C8,
  0x76A8565D, 0x8D921999, 0x0CEDCE9B, 0x5731DCA7, 0xE4C0F304, 0x8FAEA541, 0x4DFB11EE,
  0x1F05E37A, 0x43F253FC, 0xE6D57E34, 0xF833FF12, 0xC8A61FC9, 0x42028798]"
  by code_simp

lemma hello_schedule3: "schedule 16 [0x626C6F62, 0x20313100, 0x68656C6C, 0x6F20776F,
  0x726C6480, 0x00000000, 0x00000000, 0x00000000, 0x00000000, 0x00000000, 0x00000000,
  0x00000000, 0x00000000, 0x00000000, 0x00000000, 0x00000098, 0x1412061C, 0x9E228CDE,
  0x341210E8, 0xF664E2E6, 0xD89DD0BD, 0x682421D0, 0xECC9C5CD, 0xB13BA04B, 0xF86C4F98,
  0xE5D69226, 0x0A536147, 0x1C115AFC, 0x7A968536, 0xC4EE801E, 0xC995325B, 0xAB1F5276,
  0x3905B2E4, 0x880B9C8A, 0x9B87E6C8, 0x76A8565D, 0x8D921999, 0x0CEDCE9B, 0x5731DCA7,
  0xE4C0F304, 0x8FAEA541, 0x4DFB11EE, 0x1F05E37A, 0x43F253FC, 0xE6D57E34, 0xF833FF12,
  0xC8A61FC9, 0x42028798] = [0x626C6F62, 0x20313100, 0x68656C6C, 0x6F20776F, 0x726C6480,
  0x00000000, 0x00000000, 0x00000000, 0x00000000, 0x00000000, 0x00000000, 0x00000000,
  0x00000000, 0x00000000, 0x00000000, 0x00000098, 0x1412061C, 0x9E228CDE, 0x341210E8,
  0xF664E2E6, 0xD89DD0BD, 0x682421D0, 0xECC9C5CD, 0xB13BA04B, 0xF86C4F98, 0xE5D69226,
  0x0A536147, 0x1C115AFC, 0x7A968536, 0xC4EE801E, 0xC995325B, 0xAB1F5276, 0x3905B2E4,
  0x880B9C8A, 0x9B87E6C8, 0x76A8565D, 0x8D921999, 0x0CEDCE9B, 0x5731DCA7, 0xE4C0F304,
  0x8FAEA541, 0x4DFB11EE, 0x1F05E37A, 0x43F253FC, 0xE6D57E34, 0xF833FF12, 0xC8A61FC9,
  0x42028798, 0xAA3E1CFF, 0xF7FD89E0, 0x96253766, 0x2713AF8B, 0x971665D5, 0x0C77EBD7,
  0x6E559348, 0xF85E014E, 0x6DC56226, 0x2F42B175, 0x2F5756CD, 0xE22EC287, 0x2C4F6ABB,
  0x32238B21, 0xDDC6A5F3, 0xC3DCCB1A]"
  by code_simp

lemma hello_schedule4: "schedule 16 [0x626C6F62, 0x20313100, 0x68656C6C, 0x6F20776F,
  0x726C6480, 0x00000000, 0x00000000, 0x00000000, 0x00000000, 0x00000000, 0x00000000,
  0x00000000, 0x00000000, 0x00000000, 0x00000000, 0x00000098, 0x1412061C, 0x9E228CDE,
  0x341210E8, 0xF664E2E6, 0xD89DD0BD, 0x682421D0, 0xECC9C5CD, 0xB13BA04B, 0xF86C4F98,
  0xE5D69226, 0x0A536147, 0x1C115AFC, 0x7A968536, 0xC4EE801E, 0xC995325B, 0xAB1F5276,
  0x3905B2E4, 0x880B9C8A, 0x9B87E6C8, 0x76A8565D, 0x8D921999, 0x0CEDCE9B, 0x5731DCA7,
  0xE4C0F304, 0x8FAEA541, 0x4DFB11EE, 0x1F05E37A, 0x43F253FC, 0xE6D57E34, 0xF833FF12,
  0xC8A61FC9, 0x42028798, 0xAA3E1CFF, 0xF7FD89E0, 0x96253766, 0x2713AF8B, 0x971665D5,
  0x0C77EBD7, 0x6E559348, 0xF85E014E, 0x6DC56226, 0x2F42B175, 0x2F5756CD, 0xE22EC287,
  0x2C4F6ABB, 0x32238B21, 0xDDC6A5F3, 0xC3DCCB1A] = [0x626C6F62, 0x20313100, 0x68656C6C,
  0x6F20776F, 0x726C6480, 0x00000000, 0x00000000, 0x00000000, 0x00000000, 0x00000000,
  0x00000000, 0x00000000, 0x00000000, 0x00000000, 0x00000000, 0x00000098, 0x1412061C,
  0x9E228CDE, 0x341210E8, 0xF664E2E6, 0xD89DD0BD, 0x682421D0, 0xECC9C5CD, 0xB13BA04B,
  0xF86C4F98, 0xE5D69226, 0x0A536147, 0x1C115AFC, 0x7A968536, 0xC4EE801E, 0xC995325B,
  0xAB1F5276, 0x3905B2E4, 0x880B9C8A, 0x9B87E6C8, 0x76A8565D, 0x8D921999, 0x0CEDCE9B,
  0x5731DCA7, 0xE4C0F304, 0x8FAEA541, 0x4DFB11EE, 0x1F05E37A, 0x43F253FC, 0xE6D57E34,
  0xF833FF12, 0xC8A61FC9, 0x42028798, 0xAA3E1CFF, 0xF7FD89E0, 0x96253766, 0x2713AF8B,
  0x971665D5, 0x0C77EBD7, 0x6E559348, 0xF85E014E, 0x6DC56226, 0x2F42B175, 0x2F5756CD,
  0xE22EC287, 0x2C4F6ABB, 0x32238B21, 0xDDC6A5F3, 0xC3DCCB1A, 0xC7FB853C, 0x44D465DA,
  0xDB719EC9, 0x1D6207CE, 0x23B1F3F9, 0x3AF7FEE2, 0x8668A6A7, 0x6EE311B0, 0x7F3C9E6B,
  0x1FA1611E, 0x6D15661F, 0x64A7A007, 0x9B32BB5F, 0x4C3BB18D, 0xF1E44CDF, 0xE5B2085E]"
  by code_simp

lemma hello_schedule: "schedule 64 [0x626C6F62, 0x20313100, 0x68656C6C, 0x6F20776F,
  0x726C6480, 0x00000000, 0x00000000, 0x00000000, 0x00000000, 0x00000000, 0x00000000,
  0x00000000, 0x00000000, 0x00000000, 0x00000000, 0x00000098] = [0x626C6F62, 0x20313100,
  0x68656C6C, 0x6F20776F, 0x726C6480, 0x00000000, 0x00000000, 0x00000000, 0x00000000,
  0x00000000, 0x00000000, 0x00000000, 0x00000000, 0x00000000, 0x00000000, 0x00000098,
  0x1412061C, 0x9E228CDE, 0x341210E8, 0xF664E2E6, 0xD89DD0BD, 0x682421D0, 0xECC9C5CD,
  0xB13BA04B, 0xF86C4F98, 0xE5D69226, 0x0A536147, 0x1C115AFC, 0x7A968536, 0xC4EE801E,
  0xC995325B, 0xAB1F5276, 0x3905B2E4, 0x880B9C8A, 0x9B87E6C8, 0x76A8565D, 0x8D921999,
  0x0CEDCE9B, 0x5731DCA7, 0xE4C0F304, 0x8FAEA541, 0x4DFB11EE, 0x1F05E37A, 0x43F253FC,
  0xE6D57E34, 0xF833FF12, 0xC8A61FC9, 0x42028798, 0xAA3E1CFF, 0xF7FD89E0, 0x96253766,
  0x2713AF8B, 0x971665D5, 0x0C77EBD7, 0x6E559348, 0xF85E014E, 0x6DC56226, 0x2F42B175,
  0x2F5756CD, 0xE22EC287, 0x2C4F6ABB, 0x32238B21, 0xDDC6A5F3, 0xC3DCCB1A, 0xC7FB853C,
  0x44D465DA, 0xDB719EC9, 0x1D6207CE, 0x23B1F3F9, 0x3AF7FEE2, 0x8668A6A7, 0x6EE311B0,
  0x7F3C9E6B, 0x1FA1611E, 0x6D15661F, 0x64A7A007, 0x9B32BB5F, 0x4C3BB18D, 0xF1E44CDF,
  0xE5B2085E]"
  by (simp only: schedule_64 hello_schedule1 hello_schedule2 hello_schedule3 hello_schedule4)

lemma hello_rounds1: "foldl (sha1_round f0 0x5A827999) (0x67452301, 0xEFCDAB89, 0x98BADCFE,
  0x10325476, 0xC3D2E1F0) [0x626C6F62, 0x20313100, 0x68656C6C, 0x6F20776F, 0x726C6480,
  0x00000000, 0x00000000, 0x00000000, 0x00000000, 0x00000000, 0x00000000, 0x00000000,
  0x00000000, 0x00000000, 0x00000000, 0x00000098, 0x1412061C, 0x9E228CDE, 0x341210E8,
  0xF664E2E6] = (0x3291F74F, 0x379C68AD, 0x7158CE6E, 0x04B66C2F, 0x9D117BDD)"
  by code_simp

lemma hello_rounds2: "foldl (sha1_round f1 0x6ED9EBA1) (0x3291F74F, 0x379C68AD, 0x7158CE6E,
  0x04B66C2F, 0x9D117BDD) [0xD89DD0BD, 0x682421D0, 0xECC9C5CD, 0xB13BA04B, 0xF86C4F98,
  0xE5D69226, 0x0A536147, 0x1C115AFC, 0x7A968536, 0xC4EE801E, 0xC995325B, 0xAB1F5276,
  0x3905B2E4, 0x880B9C8A, 0x9B87E6C8, 0x76A8565D, 0x8D921999, 0x0CEDCE9B, 0x5731DCA7,
  0xE4C0F304] = (0xDD3A0078, 0x83A3EB23, 0x7CE8B841, 0x4A694216, 0x7CE90931)"
  by code_simp

lemma hello_rounds3: "foldl (sha1_round f2 0x8F1BBCDC) (0xDD3A0078, 0x83A3EB23, 0x7CE8B841,
  0x4A694216, 0x7CE90931) [0x8FAEA541, 0x4DFB11EE, 0x1F05E37A, 0x43F253FC, 0xE6D57E34,
  0xF833FF12, 0xC8A61FC9, 0x42028798, 0xAA3E1CFF, 0xF7FD89E0, 0x96253766, 0x2713AF8B,
  0x971665D5, 0x0C77EBD7, 0x6E559348, 0xF85E014E, 0x6DC56226, 0x2F42B175, 0x2F5756CD,
  0xE22EC287] = (0x22B80549, 0x82171840, 0xB580B3BE, 0xF8E4C3FE, 0x911F77C3)"
  by code_simp

lemma hello_rounds4: "foldl (sha1_round f1 0xCA62C1D6) (0x22B80549, 0x82171840, 0xB580B3BE,
  0xF8E4C3FE, 0x911F77C3) [0x2C4F6ABB, 0x32238B21, 0xDDC6A5F3, 0xC3DCCB1A, 0xC7FB853C,
  0x44D465DA, 0xDB719EC9, 0x1D6207CE, 0x23B1F3F9, 0x3AF7FEE2, 0x8668A6A7, 0x6EE311B0,
  0x7F3C9E6B, 0x1FA1611E, 0x6D15661F, 0x64A7A007, 0x9B32BB5F, 0x4C3BB18D, 0xF1E44CDF,
  0xE5B2085E] = (0x2E8B7C2A, 0x2047E7BE, 0x5613943B, 0x8A4BDA1A, 0xBAD0FD5F)"
  by code_simp

lemma hello_rounds: "rounds (0x67452301, 0xEFCDAB89, 0x98BADCFE, 0x10325476, 0xC3D2E1F0)
  [0x626C6F62, 0x20313100, 0x68656C6C, 0x6F20776F, 0x726C6480, 0x00000000, 0x00000000,
  0x00000000, 0x00000000, 0x00000000, 0x00000000, 0x00000000, 0x00000000, 0x00000000,
  0x00000000, 0x00000098, 0x1412061C, 0x9E228CDE, 0x341210E8, 0xF664E2E6, 0xD89DD0BD,
  0x682421D0, 0xECC9C5CD, 0xB13BA04B, 0xF86C4F98, 0xE5D69226, 0x0A536147, 0x1C115AFC,
  0x7A968536, 0xC4EE801E, 0xC995325B, 0xAB1F5276, 0x3905B2E4, 0x880B9C8A, 0x9B87E6C8,
  0x76A8565D, 0x8D921999, 0x0CEDCE9B, 0x5731DCA7, 0xE4C0F304, 0x8FAEA541, 0x4DFB11EE,
  0x1F05E37A, 0x43F253FC, 0xE6D57E34, 0xF833FF12, 0xC8A61FC9, 0x42028798, 0xAA3E1CFF,
  0xF7FD89E0, 0x96253766, 0x2713AF8B, 0x971665D5, 0x0C77EBD7, 0x6E559348, 0xF85E014E,
  0x6DC56226, 0x2F42B175, 0x2F5756CD, 0xE22EC287, 0x2C4F6ABB, 0x32238B21, 0xDDC6A5F3,
  0xC3DCCB1A, 0xC7FB853C, 0x44D465DA, 0xDB719EC9, 0x1D6207CE, 0x23B1F3F9, 0x3AF7FEE2,
  0x8668A6A7, 0x6EE311B0, 0x7F3C9E6B, 0x1FA1611E, 0x6D15661F, 0x64A7A007, 0x9B32BB5F,
  0x4C3BB18D, 0xF1E44CDF, 0xE5B2085E] = (0x2E8B7C2A, 0x2047E7BE, 0x5613943B, 0x8A4BDA1A,
  0xBAD0FD5F)"
proof -
  have "rounds (0x67452301, 0xEFCDAB89, 0x98BADCFE, 0x10325476, 0xC3D2E1F0) [0x626C6F62,
    0x20313100, 0x68656C6C, 0x6F20776F, 0x726C6480, 0x00000000, 0x00000000, 0x00000000,
    0x00000000, 0x00000000, 0x00000000, 0x00000000, 0x00000000, 0x00000000, 0x00000000,
    0x00000098, 0x1412061C, 0x9E228CDE, 0x341210E8, 0xF664E2E6, 0xD89DD0BD, 0x682421D0,
    0xECC9C5CD, 0xB13BA04B, 0xF86C4F98, 0xE5D69226, 0x0A536147, 0x1C115AFC, 0x7A968536,
    0xC4EE801E, 0xC995325B, 0xAB1F5276, 0x3905B2E4, 0x880B9C8A, 0x9B87E6C8, 0x76A8565D,
    0x8D921999, 0x0CEDCE9B, 0x5731DCA7, 0xE4C0F304, 0x8FAEA541, 0x4DFB11EE, 0x1F05E37A,
    0x43F253FC, 0xE6D57E34, 0xF833FF12, 0xC8A61FC9, 0x42028798, 0xAA3E1CFF, 0xF7FD89E0,
    0x96253766, 0x2713AF8B, 0x971665D5, 0x0C77EBD7, 0x6E559348, 0xF85E014E, 0x6DC56226,
    0x2F42B175, 0x2F5756CD, 0xE22EC287, 0x2C4F6ABB, 0x32238B21, 0xDDC6A5F3, 0xC3DCCB1A,
    0xC7FB853C, 0x44D465DA, 0xDB719EC9, 0x1D6207CE, 0x23B1F3F9, 0x3AF7FEE2, 0x8668A6A7,
    0x6EE311B0, 0x7F3C9E6B, 0x1FA1611E, 0x6D15661F, 0x64A7A007, 0x9B32BB5F, 0x4C3BB18D,
    0xF1E44CDF, 0xE5B2085E] = rounds (0x67452301, 0xEFCDAB89, 0x98BADCFE, 0x10325476,
    0xC3D2E1F0) ([0x626C6F62, 0x20313100, 0x68656C6C, 0x6F20776F, 0x726C6480, 0x00000000,
    0x00000000, 0x00000000, 0x00000000, 0x00000000, 0x00000000, 0x00000000, 0x00000000,
    0x00000000, 0x00000000, 0x00000098, 0x1412061C, 0x9E228CDE, 0x341210E8, 0xF664E2E6] @
    [0xD89DD0BD, 0x682421D0, 0xECC9C5CD, 0xB13BA04B, 0xF86C4F98, 0xE5D69226, 0x0A536147,
    0x1C115AFC, 0x7A968536, 0xC4EE801E, 0xC995325B, 0xAB1F5276, 0x3905B2E4, 0x880B9C8A,
    0x9B87E6C8, 0x76A8565D, 0x8D921999, 0x0CEDCE9B, 0x5731DCA7, 0xE4C0F304] @ [0x8FAEA541,
    0x4DFB11EE, 0x1F05E37A, 0x43F253FC, 0xE6D57E34, 0xF833FF12, 0xC8A61FC9, 0x42028798,
    0xAA3E1CFF, 0xF7FD89E0, 0x96253766, 0x2713AF8B, 0x971665D5, 0x0C77EBD7, 0x6E559348,
    0xF85E014E, 0x6DC56226, 0x2F42B175, 0x2F5756CD, 0xE22EC287] @ [0x2C4F6ABB, 0x32238B21,
    0xDDC6A5F3, 0xC3DCCB1A, 0xC7FB853C, 0x44D465DA, 0xDB719EC9, 0x1D6207CE, 0x23B1F3F9,
    0x3AF7FEE2, 0x8668A6A7, 0x6EE311B0, 0x7F3C9E6B, 0x1FA1611E, 0x6D15661F, 0x64A7A007,
    0x9B32BB5F, 0x4C3BB18D, 0xF1E44CDF, 0xE5B2085E])"
    by simp
  also have "\<dots> = foldl (sha1_round f1 0xCA62C1D6)
       (foldl (sha1_round f2 0x8F1BBCDC)
          (foldl (sha1_round f1 0x6ED9EBA1) (foldl (sha1_round f0 0x5A827999) (0x67452301,
            0xEFCDAB89, 0x98BADCFE, 0x10325476, 0xC3D2E1F0) [0x626C6F62, 0x20313100, 0x68656C6C,
            0x6F20776F, 0x726C6480, 0x00000000, 0x00000000, 0x00000000, 0x00000000, 0x00000000,
            0x00000000, 0x00000000, 0x00000000, 0x00000000, 0x00000000, 0x00000098, 0x1412061C,
            0x9E228CDE, 0x341210E8, 0xF664E2E6]) [0xD89DD0BD, 0x682421D0, 0xECC9C5CD,
            0xB13BA04B, 0xF86C4F98, 0xE5D69226, 0x0A536147, 0x1C115AFC, 0x7A968536, 0xC4EE801E,
            0xC995325B, 0xAB1F5276, 0x3905B2E4, 0x880B9C8A, 0x9B87E6C8, 0x76A8565D, 0x8D921999,
            0x0CEDCE9B, 0x5731DCA7, 0xE4C0F304]) [0x8FAEA541, 0x4DFB11EE, 0x1F05E37A,
            0x43F253FC, 0xE6D57E34, 0xF833FF12, 0xC8A61FC9, 0x42028798, 0xAA3E1CFF, 0xF7FD89E0,
            0x96253766, 0x2713AF8B, 0x971665D5, 0x0C77EBD7, 0x6E559348, 0xF85E014E, 0x6DC56226,
            0x2F42B175, 0x2F5756CD, 0xE22EC287]) [0x2C4F6ABB, 0x32238B21, 0xDDC6A5F3,
            0xC3DCCB1A, 0xC7FB853C, 0x44D465DA, 0xDB719EC9, 0x1D6207CE, 0x23B1F3F9, 0x3AF7FEE2,
            0x8668A6A7, 0x6EE311B0, 0x7F3C9E6B, 0x1FA1611E, 0x6D15661F, 0x64A7A007, 0x9B32BB5F,
            0x4C3BB18D, 0xF1E44CDF, 0xE5B2085E]"
    by (rule rounds_append) simp_all
  also have "\<dots> = (0x2E8B7C2A, 0x2047E7BE, 0x5613943B, 0x8A4BDA1A, 0xBAD0FD5F)"
    by (simp only: hello_rounds1 hello_rounds2 hello_rounds3 hello_rounds4)
  finally show ?thesis .
qed

lemma hello_block: "block sha1_init (sha1_pad hello_envelope) = (0x95D09F2B, 0x10159347,
  0xEECE7139, 0x9A7E2E90, 0x7EA3DF4F)"
  by (simp add: sha1_init_def hello_pad hello_words hello_schedule hello_rounds)

lemma hello_blocks: "blocks sha1_init (sha1_pad hello_envelope) = (0x95D09F2B, 0x10159347,
  0xEECE7139, 0x9A7E2E90, 0x7EA3DF4F)"
proof -
  have "length (sha1_pad hello_envelope) = 64"
    unfolding hello_pad by simp
  then show ?thesis
    by (simp only: blocks_single hello_block)
qed

lemma hello_identifier: "hex (sha1_Sum hello_envelope) = ''95d09f2b10159347eece71399a7e2e907ea3df4f''"
  unfolding sha1_Sum_def hello_blocks
  by code_simp
















section \<open>Formatting, paths and the file system\<close>





lemma digit_in_digits: "d < 10 \<Longrightarrow> digit d \<in> set ''0123456789''"
  unfolding digit_def by (rule nth_mem) simp

lemma formatInt_digits: "set (formatInt n) \<subseteq> set ''0123456789''"
proof (induction n rule: formatInt.induct)
  case (1 n)
  show ?case
  proof (cases "n < 10")
    case True
    then show ?thesis
      using digit_in_digits [of n] by (simp add: formatInt.simps [of n])
  next
    case False
    with 1 show ?thesis
      using digit_in_digits [of "n mod 10"] by (simp add: formatInt.simps [of n])
  qed
qed

lemma formatInt_no_NUL: "CHR 0x00 \<notin> set (formatInt n)"
  using formatInt_digits [of n] by auto

lemma header_no_NUL: "CHR 0x00 \<notin> set (''blob '' @ formatInt n)"
  using formatInt_no_NUL [of n] by simp

lemma length_hex: "length (hex bs) = 2 * length bs"
  by (induction bs) (simp_all add: hex_def)

lemma length_sha1_Sum: "length (sha1_Sum m) = 20"
  by (simp add: sha1_Sum_def be_bytes_def split: prod.splits)

lemma length_identifier: "length (hex (sha1_Sum m)) = 40"
  by (simp add: length_hex length_sha1_Sum)

lemma blobPathLoop_past: "2 \<le> i \<Longrightarrow> blobPathLoop i vs acc = acc @ vs"
  by (induction vs arbitrary: i acc) simp_all

lemma blobPath_eq:
  assumes "2 \<le> length h"
  shows "blobPath h = ''./.git/objects/'' @ take 2 h @ ''/'' @ drop 2 h"
proof -
  from assms obtain a b r where h: "h = a # b # r"
    by (cases h; cases "tl h") auto
  show ?thesis
    unfolding h blobPath_def by (simp add: blobPathLoop_past)
qed

lemma splitOn_not_Nil: "splitOn c s \<noteq> []"
  by (induction s) (auto split: list.splits)

lemma splitOn_prefix: "c \<notin> set a \<Longrightarrow> splitOn c (a @ c # s) = a # splitOn c s"
  by (induction a) (auto split: list.splits)

lemma splitOn_none: "c \<notin> set a \<Longrightarrow> splitOn c a = [a]"
  by (induction a) (auto split: list.splits)

lemma resolve_objects:
  "resolve (''.git/objects/'' @ s) =
     (False, ''.git'' # ''objects'' # filter (\<lambda>c. c \<noteq> [] \<and> c \<noteq>
       ''.'') (splitOn (CHR ''/'') s))"
proof -
  have "splitOn (CHR ''/'') (''.git'' @ CHR ''/'' # ''objects'' @ CHR ''/'' # s)
      = ''.git'' # splitOn (CHR ''/'') (''objects'' @ CHR ''/'' # s)"
    by (rule splitOn_prefix) simp
  moreover have "splitOn (CHR ''/'') (''objects'' @ CHR ''/'' # s)
      = ''objects'' # splitOn (CHR ''/'') s"
    by (rule splitOn_prefix) simp
  ultimately show ?thesis
    by (simp add: resolve_def)
qed

lemma resolve_dot_objects: "resolve (''./.git/objects/'' @ s) = resolve (''.git/objects/'' @ s)"
proof -
  have "splitOn (CHR ''/'') (''.'' @ CHR ''/'' # ''.git/objects/'' @ s)
      = ''.'' # splitOn (CHR ''/'') (''.git/objects/'' @ s)"
    by (rule splitOn_prefix) simp
  then show ?thesis
    by (simp add: resolve_def)
qed

lemma last_splitOn_prefix:
  "c \<notin> set a \<Longrightarrow> last (splitOn c (a @ c # s)) = last (splitOn c s)"
  by (simp add: splitOn_prefix splitOn_not_Nil)

lemma mustBeDirectory_dot_objects:
  "mustBeDirectory (''./.git/objects/'' @ s) = mustBeDirectory (''.git/objects/'' @ s)"
proof -
  have "last (splitOn (CHR ''/'') (''.'' @ CHR ''/'' # ''.git/objects/'' @ s))
      = last (splitOn (CHR ''/'') (''.git/objects/'' @ s))"
    by (rule last_splitOn_prefix) simp
  then show ?thesis
    by (simp add: mustBeDirectory_def)
qed

lemma lookupName_File:
  "lookupName fs s = Some (File c sz) \<longleftrightarrow>
     lookup fs (resolve s) = Some (File c sz) \<and> \<not> mustBeDirectory s"
  by (auto simp add: lookupName_def split: option.splits node.splits)

lemma ReadFile_Stat: "ReadFile fs f = Some p \<longleftrightarrow> (\<exists>sz. Stat fs f = Some (File p sz))"
  by (auto simp add: ReadFile_def Stat_def split: option.splits node.splits)

lemma HashObject_unreadable:
  "ReadFile fs (Arg args 0) = None \<Longrightarrow> HashObject zc w args fs = (Inl CouldNotOpenTheFile, fs)"
  by (simp add: HashObject_def)

lemma HashObject_dry:
  "Stat fs (Arg args 0) = Some (File p sz) \<Longrightarrow>
   HashObject zc False args fs = (Inr (hex (sha1_Sum (headerAndContent sz p))), fs)"
  using ReadFile_Stat [of fs "Arg args 0" p] by (auto simp add: HashObject_def Let_def)

lemma HashObject_write:
  "Stat fs (Arg args 0) = Some (File p sz) \<Longrightarrow>
   HashObject zc True args fs =
     (case MkdirAll fs (Dir (resolve (blobPath (hex (sha1_Sum (headerAndContent sz p)))))) of
        None \<Rightarrow> (Inl CouldNotCreateTheDirectory, fs)
      | Some fs1 \<Rightarrow>
          (case Create fs1 (blobPath (hex (sha1_Sum (headerAndContent sz p)))) of
             None \<Rightarrow> (Inl ErrorCreatingTheFile, fs1)
           | Some fs2 \<Rightarrow>
               (Inr (hex (sha1_Sum (headerAndContent sz p))),
                WriteBytes fs2 (resolve (blobPath (hex (sha1_Sum (headerAndContent sz p)))))
                  (zc (headerAndContent sz p)))))"
  using ReadFile_Stat [of fs "Arg args 0" p] by (auto simp add: HashObject_def Let_def)

lemma HashObject_written:
  assumes "Stat fs (Arg args 0) = Some (File p sz)"
    and "HashObject zc True args fs = (Inr h, fs')"
  shows "h = hex (sha1_Sum (headerAndContent sz p))"
    and "\<exists>fs2. fs' = WriteBytes fs2 (resolve (blobPath h)) (zc (headerAndContent sz p))"
    and "\<not> mustBeDirectory (blobPath h)"
  using assms(2) unfolding HashObject_write [OF assms(1)]
  by (auto simp add: Create_def split: option.splits if_splits)

lemma lookup_written:
  "lookup (WriteBytes fs2 (resolve (''.git/objects/'' @ s)) bs) (resolve (''.git/objects/'' @ s))
     = Some (File bs (length bs))"
  by (simp add: lookup_def WriteBytes_def resolve_objects [simplified])

lemma nullIndexFrom_absent: "CHR 0x00 \<notin> set bs \<Longrightarrow> nullIndexFrom i bs = -1"
  by (induction bs arbitrary: i) auto

lemma nullIndexFrom_first:
  "CHR 0x00 \<notin> set a \<Longrightarrow> nullIndexFrom i (a @ CHR 0x00 # b) = int (i +
    length a)"
  by (induction a arbitrary: i) auto

lemma nullIndexFrom_present: "CHR 0x00 \<in> set bs \<Longrightarrow> 0 \<le> nullIndexFrom i bs"
  by (induction bs arbitrary: i) auto

lemma nullIndex_absent_iff: "nullIndex bs = -1 \<longleftrightarrow> CHR 0x00 \<notin> set bs"
  using nullIndexFrom_absent [of bs 0] nullIndexFrom_present [of bs 0]
  by (auto simp add: nullIndex_def)

lemma unframe_split: "CHR 0x00 \<notin> set a \<Longrightarrow> unframe (a @ CHR 0x00 # b) =
  Inr (a, b)"
  by (simp add: unframe_def nullIndex_def nullIndexFrom_first)

lemma unframe_envelope:
  "unframe (headerAndContent n p) = Inr (''blob '' @ formatInt n, p)"
  using unframe_split [OF header_no_NUL, of n p] by (simp add: headerAndContent_def)

lemma CatFile_stored:
  assumes "2 \<le> length h"
    and "lookup fs (resolve (blobPath h)) = Some (File bs k)"
    and "\<not> mustBeDirectory (blobPath h)"
    and "zd bs = Inflated (headerAndContent n p)"
  shows "CatFile zd pp (h # rest) fs = Inr (if pp then p else ''blob '' @ formatInt n)"
proof -
  have "lookupName fs (''.git/objects/'' @ take 2 h @ ''/'' @ drop 2 h) = Some (File bs k)"
    unfolding lookupName_File
    using assms(2,3)
    by (simp add: blobPath_eq [OF assms(1)] resolve_dot_objects [simplified]
        mustBeDirectory_dot_objects [simplified])
  then show ?thesis
    using assms(1,4) by (simp add: CatFile_def Open_def Arg_def objectPath_def unframe_envelope)
qed

lemma HashObject_stored:
  assumes "Stat fs (Arg args 0) = Some (File p sz)"
    and "HashObject zc True args fs = (Inr h, fs')"
  shows "lookup fs' (resolve (blobPath h))
      = Some (File (zc (headerAndContent sz p)) (length (zc (headerAndContent sz p))))"
proof -
  have "h = hex (sha1_Sum (headerAndContent sz p))"
    using HashObject_written(1) [OF assms] .
  then have len: "2 \<le> length h"
    by (simp add: length_identifier)
  obtain fs2 where "fs' = WriteBytes fs2 (resolve (blobPath h)) (zc (headerAndContent sz p))"
    using HashObject_written(2) [OF assms] by blast
  then show ?thesis
    using lookup_written [of fs2 "take 2 h @ ''/'' @ drop 2 h"]
    by (simp add: blobPath_eq [OF len] resolve_dot_objects [simplified])
qed

lemma put_then_get:
  assumes "Stat fs (Arg args 0) = Some (File p sz)"
    and "HashObject zc True args fs = (Inr h, fs')"
    and "zd (zc (headerAndContent sz p)) = Inflated (headerAndContent sz p)"
  shows "CatFile zd pp (h # rest) fs' = Inr (if pp then p else ''blob '' @ formatInt sz)"
proof -
  have "h = hex (sha1_Sum (headerAndContent sz p))"
    using HashObject_written(1) [OF assms(1,2)] .
  then have len: "2 \<le> length h"
    by (simp add: length_identifier)
  show ?thesis
    by (rule CatFile_stored
        [where zd = zd and bs = "zc (headerAndContent sz p)",
          OF len HashObject_stored [OF assms(1,2)] HashObject_written(3) [OF assms(1,2)] assms(3)])
qed

lemma hello_resolve: "resolve ''test.txt'' = (False, [''test.txt''])"
  by (simp add: resolve_def)

lemma hello_stat: "Stat hello_fs (Arg [''test.txt''] 0) = Some (File ''hello world'' 11)"
  by (simp add: Stat_def lookupName_def mustBeDirectory_def Arg_def hello_resolve lookup_def
      hello_fs_def)

lemma hello_read: "ReadFile hello_fs (Arg [''test.txt''] 0) = Some ''hello world''"
  unfolding ReadFile_Stat using hello_stat by blast

lemma formatInt_11: "formatInt 11 = ''11''"
  by code_simp

lemma hello_length: "length ''hello world'' = 11"
  by simp

lemma hello_header: "headerAndContent 11 ''hello world'' = hello_envelope"
  by (simp add: headerAndContent_def hello_envelope_def formatInt_11)

lemma hello_path:
  "resolve (blobPath hello_id) =
     (False, [''.git'', ''objects'', ''95'', ''d09f2b10159347eece71399a7e2e907ea3df4f''])"
  "\<not> mustBeDirectory (blobPath hello_id)"
proof -
  have path: "blobPath hello_id = ''./.git/objects/'' @ ''95/d09f2b10159347eece71399a7e2e907ea3df4f''"
    by (simp add: blobPath_def hello_id_def)
  have split: "splitOn (CHR ''/'') (''95'' @ CHR ''/'' # ''d09f2b10159347eece71399a7e2e907ea3df4f'')
      = [''95'', ''d09f2b10159347eece71399a7e2e907ea3df4f'']"
    by (subst splitOn_prefix) (simp_all add: splitOn_none)
  show "resolve (blobPath hello_id) =
     (False, [''.git'', ''objects'', ''95'', ''d09f2b10159347eece71399a7e2e907ea3df4f''])"
    using path split by (simp only: resolve_dot_objects resolve_objects) simp
  show "\<not> mustBeDirectory (blobPath hello_id)"
    by (simp add: mustBeDirectory_def blobPath_def hello_id_def)
qed

lemma hello_put: "HashObject zc True [''test.txt''] hello_fs = (Inr hello_id, hello_store zc)"
proof -
  have id: "hex (sha1_Sum hello_envelope) = hello_id"
    by (simp only: hello_identifier hello_id_def)
  have mk: "MkdirAll hello_fs (False, [''.git'', ''objects'', ''95'']) =
      Some (hello_fs((False, [''.git'']) \<mapsto> Directory,
              (False, [''.git'', ''objects'']) \<mapsto> Directory,
              (False, [''.git'', ''objects'', ''95'']) \<mapsto> Directory))"
    by (simp add: MkdirAll_def hello_fs_def)
  show ?thesis
    unfolding HashObject_write [OF hello_stat] hello_header id
    by (simp add: hello_path Dir_def mk [unfolded hello_fs_def] Create_def lookup_def
        WriteBytes_def hello_store_def hello_fs_def)
qed

lemma hello_dry: "HashObject zc False [''test.txt''] hello_fs = (Inr hello_id, hello_fs)"
  unfolding HashObject_dry [OF hello_stat] hello_header
  by (simp only: hello_identifier hello_id_def)

lemma hello_get:
  "zd (zc hello_envelope) = Inflated hello_envelope \<Longrightarrow>
   CatFile zd pp [hello_id] (hello_store zc) = Inr (if pp then ''hello world'' else ''blob 11'')"
  using put_then_get [OF hello_stat hello_put, of zd zc pp "[]"]
  unfolding hello_header formatInt_11
  by simp










lemma hex_path_components:
  assumes "2 < length h" and "set h \<subseteq> set ''0123456789abcdef''"
  shows "resolve (''.git/objects/'' @ take 2 h @ ''/'' @ drop 2 h)
      = (False, [''.git'', ''objects'', take 2 h, drop 2 h])"
proof -
  have a: "CHR ''/'' \<notin> set (take 2 h)" and b: "CHR ''/'' \<notin> set (drop 2 h)"
    and c: "CHR ''.'' \<notin> set (drop 2 h)"
    using assms(2) by (auto dest!: in_set_takeD in_set_dropD)
  have "splitOn (CHR ''/'') (take 2 h @ CHR ''/'' # drop 2 h) = [take 2 h, drop 2 h]"
    by (simp add: splitOn_prefix [OF a] splitOn_none [OF b])
  moreover have "take 2 h \<noteq> []" "take 2 h \<noteq> ''.''" "drop 2 h \<noteq> []"
    using assms(1) by (auto simp add: take_Suc_conv_app_nth dest: arg_cong [where f = length])
  moreover have "drop 2 h \<noteq> ''.''"
    using c by auto
  ultimately show ?thesis
    by (simp add: resolve_objects [simplified])
qed

section \<open>Tree records: parsing and sorting\<close>


lemma scanTo_absent: "c \<notin> set xs \<Longrightarrow> scanTo c xs = None"
  by (induction xs) auto

lemma parseEntries_Nil: "parseEntries [] slack = Inr []"
  by (simp add: parseEntries.simps)











section \<open>The claims about hash-object and cat-file\<close>

text \<open>
  C1, as the code has it. \<^verbatim>\<open>hash-object -w\<close> always stores a blob, and \<^verbatim>\<open>cat-file\<close> does
  not split the header. When a file that holds the payload \<open>p\<close> has been stored and the
  identifier \<open>h\<close> printed, \<^verbatim>\<open>cat-file -p h\<close> prints exactly \<open>p\<close>; and when the size of the
  file is the number of its bytes, as it is for a file on disk, \<^verbatim>\<open>cat-file h\<close> prints the
  header, which is the label \<^verbatim>\<open>blob\<close>, a space and the decimal length of \<open>p\<close>.
  The library is asked one thing, that inflating what it deflated gives the envelope back.
\<close>

theorem c1_put_get_roundtrip:
  assumes "Stat fs (Arg args 0) = Some (File p sz)"
    and "HashObject zc True args fs = (Inr h, fs')"
    and "zd (zc (headerAndContent sz p)) = Inflated (headerAndContent sz p)"
  shows "CatFile zd True [h] fs' = Inr p
       \<and> (sz = length p \<longrightarrow> CatFile zd False [h] fs' = Inr (''blob '' @ formatInt (length p)))"
  using put_then_get [OF assms(1,2), where zd = zd and pp = True and rest = "[]"]
    put_then_get [OF assms(1,2), where zd = zd and pp = False and rest = "[]"] assms(3)
  by simp

theorem c1_put_get_roundtrip_witness:
  "Stat hello_fs (Arg [''test.txt''] 0) = Some (File ''hello world'' 11)
   \<and> HashObject id True [''test.txt''] hello_fs = (Inr hello_id, hello_store id)
   \<and> 11 = length ''hello world''
   \<and> CatFile Inflated True [hello_id] (hello_store id) = Inr ''hello world''
   \<and> CatFile Inflated False [hello_id] (hello_store id) = Inr ''blob 11''"
  using c1_put_get_roundtrip [OF hello_stat hello_put, of Inflated id]
  unfolding hello_header hello_length formatInt_11
  by (simp add: hello_stat hello_put)

text \<open>
  C1 as it is stated fails on the type label: after \<^verbatim>\<open>hash-object -w\<close> of the file that
  holds \<^verbatim>\<open>hello world\<close>, what \<^verbatim>\<open>cat-file\<close> gives for the type is \<^verbatim>\<open>blob 11\<close>, not \<^verbatim>\<open>blob\<close>.
\<close>

theorem c1_type_label_counterexample:
  "fst (HashObject id True [''test.txt''] hello_fs) = Inr hello_id
   \<and> CatFile Inflated False [hello_id] (snd (HashObject id True [''test.txt''] hello_fs))
       = Inr ''blob 11''
   \<and> CatFile Inflated False [hello_id] (snd (HashObject id True [''test.txt''] hello_fs))
       \<noteq> Inr ''blob''"
  using hello_get [of Inflated id False] by (simp add: hello_put)




text \<open>
  C3. For an identifier \<open>h\<close> of more than two characters, the path \<^verbatim>\<open>hash-object\<close> writes
  and the path \<^verbatim>\<open>cat-file\<close> and \<^verbatim>\<open>ls-tree\<close> read are the objects directory, then \<open>h[0:2]\<close>
  as the directory, then \<open>h[2:]\<close> as the file; the two paths name the same file, and for
  an identifier of hexadecimal digits its components are exactly these.
\<close>

theorem c3_path_derivation:
  assumes "2 < length h"
  shows "blobPath h = ''./.git/objects/'' @ take 2 h @ ''/'' @ drop 2 h
       \<and> objectPath h = Inr (''.git/objects/'' @ take 2 h @ ''/'' @ drop 2 h)
       \<and> resolve (blobPath h) = resolve (''.git/objects/'' @ take 2 h @ ''/'' @ drop 2 h)
       \<and> (set h \<subseteq> set ''0123456789abcdef'' \<longrightarrow>
            resolve (blobPath h) = (False, [''.git'', ''objects'', take 2 h, drop 2 h]))"
proof -
  have len: "2 \<le> length h"
    using assms by simp
  have same: "resolve (blobPath h) = resolve (''.git/objects/'' @ take 2 h @ ''/'' @ drop 2 h)"
    unfolding blobPath_eq [OF len] by (rule resolve_dot_objects)
  show ?thesis
    using assms same hex_path_components [OF assms]
    by (simp add: blobPath_eq [OF len] objectPath_def)
qed

theorem c3_path_derivation_witness:
  "2 < length hello_id
   \<and> blobPath hello_id = ''./.git/objects/95/d09f2b10159347eece71399a7e2e907ea3df4f''
   \<and> objectPath hello_id = Inr ''.git/objects/95/d09f2b10159347eece71399a7e2e907ea3df4f''
   \<and> resolve (blobPath hello_id)
       = (False, [''.git'', ''objects'', ''95'', ''d09f2b10159347eece71399a7e2e907ea3df4f''])"
  using c3_path_derivation [of hello_id]
  by (auto simp add: hello_id_def blobPath_def)

text \<open>
  C4. An identifier of fewer than two characters is not rejected: \<^verbatim>\<open>cat-file\<close> and
  \<^verbatim>\<open>ls-tree\<close> slice it and panic, \<^verbatim>\<open>ls-tree\<close> also when the argument is missing. An
  identifier of two characters passes and gives a path with an empty file name.
\<close>

theorem c4_short_identifier_panics:
  "CatFile zd prettyPrint [''a''] fs = Inl PanicSliceBounds
   \<and> CatFile zd prettyPrint [''''] fs = Inl PanicSliceBounds
   \<and> LsTree zd slack sortSlice nameOnly [''a''] fs = Inl PanicSliceBounds
   \<and> LsTree zd slack sortSlice nameOnly [] fs = Inl PanicSliceBounds
   \<and> objectPath ''ab'' = Inr ''.git/objects/ab/''"
  by (simp add: CatFile_def LsTree_def objectPath_def Arg_def)

text \<open>
  C8, as the code has it. The split of lines 77 to 91 fails exactly when the content has
  no NUL byte, and in no other way; whatever stands before the first NUL is returned as
  the header, with neither its form nor its length field examined.
\<close>

theorem c8_unframe_checks_nul_only:
  "(unframe env = Inl NoNullByteFound \<longleftrightarrow> CHR 0x00 \<notin> set env)
   \<and> (\<forall>e. unframe env = Inl e \<longrightarrow> e = NoNullByteFound)
   \<and> (CHR 0x00 \<notin> set header \<longrightarrow> unframe (header @ [CHR 0x00] @ body)
     = Inr (header, body))"
  using unframe_split [of header body]
  by (auto simp add: unframe_def nullIndex_absent_iff)

theorem c8_unframe_checks_nul_only_witness:
  "(unframe ''blob 3'' = Inl NoNullByteFound \<longleftrightarrow> CHR 0x00 \<notin> set ''blob 3'')
   \<and> unframe ''blob 3'' = Inl NoNullByteFound
   \<and> CHR 0x00 \<notin> set ''blob 7''
   \<and> unframe (''blob 7'' @ [CHR 0x00] @ ''abc'') = Inr (''blob 7'', ''abc'')"
  using c8_unframe_checks_nul_only [of "''blob 3''" "''blob 7''" "''abc''"]
  by simp

text \<open>
  C8 as it is stated fails: a header that is not a label, a space and a decimal length is
  accepted. Here the header is the one letter \<^verbatim>\<open>x\<close>.
\<close>

theorem c8_malformed_header_counterexample:
  "CHR '' '' \<notin> set ''x'' \<and> unframe (''x'' @ [CHR 0x00] @ ''y'') = Inr (''x'', ''y'')"
  using unframe_split [of "''x''" "''y''"] by simp

text \<open>
  C9. Without \<^verbatim>\<open>-w\<close>, \<^verbatim>\<open>hash-object\<close> leaves the file system as it found it; whenever the
  run with \<^verbatim>\<open>-w\<close> prints an identifier, the run without prints the same one; and for a
  readable file it does print the identifier of the envelope.
\<close>

theorem c9_dry_run:
  "snd (HashObject zc False args fs) = fs
   \<and> (\<forall>h. fst (HashObject zc True args fs) = Inr h \<longrightarrow> fst (HashObject zc False args fs) = Inr h)
   \<and> (\<forall>p sz. Stat fs (Arg args 0) = Some (File p sz) \<longrightarrow>
         fst (HashObject zc False args fs) = Inr (hex (sha1_Sum (headerAndContent sz p))))"
proof (cases "ReadFile fs (Arg args 0)")
  case None
  then have "Stat fs (Arg args 0) \<noteq> Some (File p sz)" for p sz
    using ReadFile_Stat [of fs "Arg args 0" p] by auto
  with None show ?thesis
    by (simp add: HashObject_unreadable)
next
  case (Some p)
  then obtain sz where "Stat fs (Arg args 0) = Some (File p sz)"
    unfolding ReadFile_Stat by blast
  then show ?thesis
    by (simp add: HashObject_dry HashObject_write split: option.splits)
qed

theorem c9_dry_run_witness:
  "snd (HashObject id False [''test.txt''] hello_fs) = hello_fs
   \<and> fst (HashObject id True [''test.txt''] hello_fs) = Inr hello_id
   \<and> fst (HashObject id False [''test.txt''] hello_fs) = Inr hello_id
   \<and> Stat hello_fs (Arg [''test.txt''] 0) = Some (File ''hello world'' 11)"
  using c9_dry_run [of id "[''test.txt'']" hello_fs]
  by (simp add: hello_put hello_stat)

text \<open>
  C10. For a file that holds the 11 bytes \<^verbatim>\<open>hello world\<close>, the envelope is
  \<^verbatim>\<open>blob 11\<close>, a NUL byte and the payload, and the identifier that \<^verbatim>\<open>hash-object\<close> prints
  is \<^verbatim>\<open>95d09f2b10159347eece71399a7e2e907ea3df4f\<close>, 40 characters, the SHA-1 digest of that
  envelope: with \<^verbatim>\<open>-w\<close> in the directory of the example, where the object is stored
  under the path derived from it, and in any file system where the file has the size 11,
  where the run without \<^verbatim>\<open>-w\<close> prints it and the run with \<^verbatim>\<open>-w\<close> prints nothing else.
\<close>

theorem c10_hello_world_identifier:
  "headerAndContent (length ''hello world'') ''hello world''
     = ''blob 11'' @ [CHR 0x00] @ ''hello world''
   \<and> hex (sha1_Sum (''blob 11'' @ [CHR 0x00] @ ''hello world''))
     = ''95d09f2b10159347eece71399a7e2e907ea3df4f''
   \<and> length ''95d09f2b10159347eece71399a7e2e907ea3df4f'' = 40
   \<and> HashObject zc True [''test.txt''] hello_fs
     = (Inr ''95d09f2b10159347eece71399a7e2e907ea3df4f'', hello_store zc)
   \<and> (Stat fs (Arg args 0) = Some (File ''hello world'' 11) \<longrightarrow>
        fst (HashObject zc False args fs) = Inr ''95d09f2b10159347eece71399a7e2e907ea3df4f''
        \<and> (\<forall>h. fst (HashObject zc True args fs) = Inr h \<longrightarrow>
              h = ''95d09f2b10159347eece71399a7e2e907ea3df4f''))"
proof -
  have env: "headerAndContent (length ''hello world'') ''hello world''
      = ''blob 11'' @ [CHR 0x00] @ ''hello world''"
    unfolding hello_length hello_header by (simp only: hello_envelope_def)
  have env11: "headerAndContent 11 ''hello world'' = ''blob 11'' @ [CHR 0x00] @ ''hello world''"
    unfolding hello_header by (simp only: hello_envelope_def)
  have id: "hex (sha1_Sum (''blob 11'' @ [CHR 0x00] @ ''hello world''))
      = ''95d09f2b10159347eece71399a7e2e907ea3df4f''"
    using hello_identifier by (simp only: hello_envelope_def)
  have len: "length ''95d09f2b10159347eece71399a7e2e907ea3df4f'' = 40"
    by simp
  have put: "HashObject zc True [''test.txt''] hello_fs
      = (Inr ''95d09f2b10159347eece71399a7e2e907ea3df4f'', hello_store zc)"
    using hello_put [of zc] by (simp only: hello_id_def)
  have dry: "fst (HashObject zc False args fs) = Inr ''95d09f2b10159347eece71399a7e2e907ea3df4f''"
    if "Stat fs (Arg args 0) = Some (File ''hello world'' 11)"
    by (simp only: HashObject_dry [OF that] env11 id fst_conv)
  have wet: "h = ''95d09f2b10159347eece71399a7e2e907ea3df4f''"
    if "Stat fs (Arg args 0) = Some (File ''hello world'' 11)"
      and "fst (HashObject zc True args fs) = Inr h" for h
  proof -
    from that(2) have "HashObject zc True args fs = (Inr h, snd (HashObject zc True args fs))"
      by (metis prod.collapse)
    from HashObject_written(1) [OF that(1) this] show ?thesis
      by (simp only: env11 id)
  qed
  show ?thesis
    apply (intro conjI impI allI)
         apply (rule env)
        apply (rule id)
       apply (rule len)
      apply (rule put)
     apply (erule dry)
    apply (erule wet, assumption)
    done
qed

theorem c10_hello_world_identifier_witness:
  "Stat hello_fs (Arg [''test.txt''] 0) = Some (File ''hello world'' 11)
   \<and> fst (HashObject id False [''test.txt''] hello_fs)
       = Inr ''95d09f2b10159347eece71399a7e2e907ea3df4f''
   \<and> fst (HashObject id True [''test.txt''] hello_fs)
       = Inr ''95d09f2b10159347eece71399a7e2e907ea3df4f''"
proof -
  note c10 = c10_hello_world_identifier [of id hello_fs "[''test.txt'']"]
  note put = c10 [THEN conjunct2, THEN conjunct2, THEN conjunct2, THEN conjunct1]
  note any = c10 [THEN conjunct2, THEN conjunct2, THEN conjunct2, THEN conjunct2, THEN mp,
      OF hello_stat]
  show ?thesis
    apply (intro conjI)
      apply (rule hello_stat)
     apply (rule any [THEN conjunct1])
    apply (simp only: put fst_conv)
    done
qed

section \<open>The claims about trees\<close>

text \<open>
  C5. A tree payload that ends before the space, or before the NUL byte, makes the loop
  index past the end: a panic, not a reported failure. When fewer than 20 bytes remain for
  the identifier, the slice panics if the capacity of the buffer is short as well, and
  otherwise the entry is returned with an identifier completed from the bytes behind the
  payload.
\<close>

theorem c5_truncated_tree_panics:
  "parseEntries ''100644'' slack = Inl PanicIndex
   \<and> parseEntries ''100644 a'' slack = Inl PanicIndex
   \<and> parseEntries (''100644 a'' @ [CHR 0x00] @ ''12345'') [] = Inl PanicSliceBounds
   \<and> parseEntries (''100644 a'' @ [CHR 0x00] @ ''12345'') (replicate 15 (CHR 0x00))
       = Inr [\<lparr>Mode = ''100644'', Name = ''a'',
               Sha = ''3132333435000000000000000000000000000000''\<rparr>]"
proof -
  have 1: "parseEntries ''100644'' slack = Inl PanicIndex"
    by (subst parseEntries.simps) simp
  have 2: "parseEntries ''100644 a'' slack = Inl PanicIndex"
    by (subst parseEntries.simps) simp
  have 3: "parseEntries (''100644 a'' @ [CHR 0x00] @ ''12345'') [] = Inl PanicSliceBounds"
    by (subst parseEntries.simps) simp
  have "hex (''12345'' @ replicate 15 (CHR 0x00)) = ''3132333435000000000000000000000000000000''"
    by code_simp
  then have 4: "parseEntries (''100644 a'' @ [CHR 0x00] @ ''12345'') (replicate 15 (CHR 0x00))
       = Inr [\<lparr>Mode = ''100644'', Name = ''a'',
               Sha = ''3132333435000000000000000000000000000000''\<rparr>]"
    by (subst parseEntries.simps) (simp add: parseEntries_Nil)
  from 1 2 3 4 show ?thesis
    by (intro conjI)
qed







end
